theory Spec2Isabelle
  imports Complex_Main
begin

section \<open>Data model\<close>

text \<open>
  The market-making trader of \<^verbatim>\<open>round_1_v2.0.1.py\<close>. Python's unbounded \<^verbatim>\<open>int\<close>
  is \<^typ>\<open>int\<close>. Python's \<^verbatim>\<open>float\<close> is idealised as \<^typ>\<open>real\<close>: every float
  operation is read as the exact operation on real numbers. A dictionary that the
  code iterates over (one side of the order book) is the list of its items in
  iteration order, whose keys are distinct in a dictionary; no statement below needs
  that. A dictionary that is only looked up is a map. The classes \<^verbatim>\<open>OrderDepth\<close>,
  \<^verbatim>\<open>TradingState\<close> and \<^verbatim>\<open>Order\<close> come from the exchange's \<^verbatim>\<open>datamodel\<close>
  module; they are records of the fields that the trader reads or writes.
\<close>

datatype error = KeyError | ValueError | ZeroDivisionError

datatype Order = Order (symbol: string) (price: int) (quantity: int)

record OrderDepth =
  buy_orders :: "(int \<times> int) list"
  sell_orders :: "(int \<times> int) list"

record TradingState =
  state_timestamp :: int
  state_order_depths :: "string \<rightharpoonup> OrderDepth"
  state_position :: "string \<rightharpoonup> int"

record Status =
  product :: string
  state :: TradingState
  order_depth :: OrderDepth
  timestamp :: int
  position :: int
  limit :: int
  best_ask :: int
  best_bid :: int
  spread :: int
  mid_price :: real
  eff_spread :: real
  mid_vwap :: real

text \<open>One entry of \<^verbatim>\<open>Trader._data\<close>: the keys \<^verbatim>\<open>'trend'\<close> and \<^verbatim>\<open>'price'\<close>.\<close>

record ProductData =
  trend :: real
  data_price :: "real list"

section \<open>Python built-ins\<close>

text \<open>\<^verbatim>\<open>min\<close> and \<^verbatim>\<open>max\<close> of an iterable raise ValueError when it is empty.\<close>

definition py_min :: "int list \<Rightarrow> error + int" where
  "py_min xs = (case xs of [] \<Rightarrow> Inl ValueError | x # ys \<Rightarrow> Inr (fold min ys x))"

definition py_max :: "int list \<Rightarrow> error + int" where
  "py_max xs = (case xs of [] \<Rightarrow> Inl ValueError | x # ys \<Rightarrow> Inr (fold max ys x))"

text \<open>\<^verbatim>\<open>round(x)\<close> rounds to the nearest integer, a tie to the even one.\<close>

definition py_round :: "real \<Rightarrow> int" where
  "py_round x =
     (let f = \<lfloor>x\<rfloor>; d = x - of_int f
      in if d < 1 / 2 then f
         else if 1 / 2 < d then f + 1
         else if even f then f else f + 1)"

text \<open>\<^verbatim>\<open>round(x, 2)\<close>: the same rounding at the second decimal place.\<close>

definition py_round2 :: "real \<Rightarrow> real" where
  "py_round2 x = of_int (py_round (x * 100)) / 100"

text \<open>\<^verbatim>\<open>d[k]\<close> on a dictionary given by its items.\<close>

definition py_getitem :: "(int \<times> int) list \<Rightarrow> int \<Rightarrow> error + int" where
  "py_getitem d k = (case map_of d k of None \<Rightarrow> Inl KeyError | Some v \<Rightarrow> Inr v)"

section \<open>Class Status\<close>

definition POSITION_LIMITS :: "string \<rightharpoonup> int" where
  "POSITION_LIMITS = [''PEARLS'' \<mapsto> 20, ''BANANAS'' \<mapsto> 20]"

text \<open>\<^verbatim>\<open>report_position\<close> (lines 37-50), without the printing.\<close>

definition report_position :: "string \<Rightarrow> TradingState \<Rightarrow> int" where
  "report_position prd st =
     (case state_position st prd of Some p \<Rightarrow> p | None \<Rightarrow> 0)"

text \<open>\<^verbatim>\<open>spread_mid\<close> (lines 52-58).\<close>

definition spread_mid :: "int \<Rightarrow> int \<Rightarrow> int \<times> real" where
  "spread_mid ba bb = (ba - bb, (of_int ba + of_int bb) / 2)"

text \<open>
  One accumulation loop of \<^verbatim>\<open>spread_vwap\<close> (lines 65-70 and 73-78): numerator and
  denominator over the items, then the division.
\<close>

definition vwap :: "(int \<times> int) list \<Rightarrow> error + real" where
  "vwap items =
     (let numerator = fold (\<lambda>(p, q) n. n + p * q) items 0;
          denominator = fold (\<lambda>(p, q) n. n + q) items 0
      in if denominator = 0 then Inl ZeroDivisionError
         else Inr (of_int numerator / of_int denominator))"

text \<open>\<^verbatim>\<open>spread_vwap\<close> (lines 60-85).\<close>

definition spread_vwap :: "OrderDepth \<Rightarrow> error + real \<times> real" where
  "spread_vwap od =
     (case vwap (sell_orders od) of Inl e \<Rightarrow> Inl e | Inr ask_vwap \<Rightarrow>
     (case vwap (buy_orders od) of Inl e \<Rightarrow> Inl e | Inr bid_vwap \<Rightarrow>
        Inr (py_round2 (ask_vwap - bid_vwap), py_round2 ((ask_vwap + bid_vwap) / 2))))"

text \<open>
  \<^verbatim>\<open>Status.__init__\<close> (lines 14-24), the fields in the order in which the
  constructor computes them; the first failing step is the result.
\<close>

definition Status_init :: "string \<Rightarrow> TradingState \<Rightarrow> error + Status" where
  "Status_init prd st =
     (case state_order_depths st prd of None \<Rightarrow> Inl KeyError | Some od \<Rightarrow>
     (case POSITION_LIMITS prd of None \<Rightarrow> Inl KeyError | Some lmt \<Rightarrow>
     (case py_min (map fst (sell_orders od)) of Inl e \<Rightarrow> Inl e | Inr ba \<Rightarrow>
     (case py_max (map fst (buy_orders od)) of Inl e \<Rightarrow> Inl e | Inr bb \<Rightarrow>
     (case spread_vwap od of Inl e \<Rightarrow> Inl e | Inr (es, mv) \<Rightarrow>
        Inr \<lparr>product = prd, state = st, order_depth = od,
             timestamp = state_timestamp st,
             position = report_position prd st,
             limit = lmt, best_ask = ba, best_bid = bb,
             spread = fst (spread_mid ba bb), mid_price = snd (spread_mid ba bb),
             eff_spread = es, mid_vwap = mv\<rparr>)))))"

section \<open>Class Calculate\<close>

text \<open>The window update of \<^verbatim>\<open>update_price\<close> (lines 101-108).\<close>

definition update_window :: "int \<Rightarrow> real \<Rightarrow> real list \<Rightarrow> real list" where
  "update_window ts mid w =
     (if 400 < ts then (case w of [] \<Rightarrow> [] | x # xs \<Rightarrow> xs) else w) @ [mid]"

text \<open>\<^verbatim>\<open>update_price\<close> (lines 95-110).\<close>

definition update_price ::
  "Status \<Rightarrow> (string \<rightharpoonup> ProductData) \<Rightarrow> error + (string \<rightharpoonup> ProductData)" where
  "update_price s data =
     (case data (product s) of None \<Rightarrow> Inl KeyError
      | Some d \<Rightarrow>
          Inr (data(product s \<mapsto>
                 d\<lparr>data_price := update_window (timestamp s) (mid_price s) (data_price d)\<rparr>)))"

section \<open>Class Strategy\<close>

text \<open>\<^verbatim>\<open>mm_price\<close> (lines 125-139), with its default \<^verbatim>\<open>sma_scale = 0.75\<close>.\<close>

definition price_shift :: "Status \<Rightarrow> real \<Rightarrow> real" where
  "price_shift s sma =
     (if timestamp s < 400 then 0 else - 0.75 * (mid_price s - sma))"

definition mm_price :: "Status \<Rightarrow> real \<Rightarrow> real" where
  "mm_price s sma = mid_vwap s + price_shift s sma"

text \<open>\<^verbatim>\<open>mm_spread\<close> (lines 141-147).\<close>

definition mm_spread :: "Status \<Rightarrow> real \<Rightarrow> real" where
  "mm_spread s tr = eff_spread s * (1 - tr)"

text \<open>The candidate prices of \<^verbatim>\<open>inventory_skew\<close> (lines 157-169).\<close>

definition quote_prices :: "real \<Rightarrow> real \<Rightarrow> int \<times> int" where
  "quote_prices pr sp =
     (let bid0 = \<lceil>pr - sp / 2\<rceil>;
          bid_price = (if pr \<le> of_int bid0 then bid0 - 1 else bid0);
          ask0 = \<lfloor>pr + sp / 2\<rfloor>;
          ask_price = (if of_int ask0 \<le> pr then bid_price + 1 else ask0)
      in (bid_price, ask_price))"

text \<open>The stop-loss test of line 171.\<close>

definition stop_loss :: "Status \<Rightarrow> bool" where
  "stop_loss s \<longleftrightarrow> 0.9 * real_of_int (limit s) \<le> real_of_int \<bar>position s\<bar>"

text \<open>The quantity shift of lines 198-202, with the default \<^verbatim>\<open>sma_scale = 2.0\<close>.\<close>

definition quantity_shift :: "Status \<Rightarrow> real \<Rightarrow> int" where
  "quantity_shift s sma =
     (if timestamp s < 400 then 0 else py_round (- 2 * (mid_price s - sma)))"

text \<open>The quoted sizes of lines 190-205, with the default \<^verbatim>\<open>skew = 0.5\<close>.\<close>

definition quote_quantities :: "Status \<Rightarrow> real \<Rightarrow> int \<times> int" where
  "quote_quantities s sma =
     (let bid_limit = limit s - max (position s) 0;
          ask_limit = - limit s - min (position s) 0;
          bid_skew = \<lfloor>0.5 * real_of_int (max (position s) 0)\<rfloor>;
          ask_skew = \<lceil>0.5 * real_of_int (min (position s) 0)\<rceil>;
          bid_quantity = max (bid_limit - bid_skew) 0;
          ask_quantity = min (ask_limit - ask_skew) 0;
          shift = quantity_shift s sma
      in (max (min bid_limit (bid_quantity + shift)) 0,
          min (max ask_limit (ask_quantity + shift)) 0))"

text \<open>\<^verbatim>\<open>inventory_skew\<close> (lines 149-219).\<close>

definition inventory_skew :: "Status \<Rightarrow> real \<Rightarrow> real \<Rightarrow> real \<Rightarrow> error + Order list" where
  "inventory_skew s pr sp sma =
     (let (bid_price, ask_price) = quote_prices pr sp
      in if stop_loss s then
           (case py_getitem (sell_orders (order_depth s)) (best_ask s) of
              Inl e \<Rightarrow> Inl e
            | Inr ask_quantity \<Rightarrow>
           (case py_getitem (buy_orders (order_depth s)) (best_bid s) of
              Inl e \<Rightarrow> Inl e
            | Inr bid_quantity \<Rightarrow>
                if 0 < position s
                then Inr [Order (product s) (best_ask s) ask_quantity]
                else Inr [Order (product s) (best_bid s) bid_quantity]))
         else
           (let (bid_quantity, ask_quantity) = quote_quantities s sma
            in if best_ask s < bid_price then Inr []
               else if ask_price < best_bid s then Inr []
               else Inr [Order (product s) bid_price bid_quantity,
                         Order (product s) ask_price ask_quantity]))"

text \<open>\<^verbatim>\<open>market_making\<close> (lines 120-225).\<close>

definition market_making :: "Status \<Rightarrow> real \<Rightarrow> real \<Rightarrow> error + Order list" where
  "market_making s tr sma = inventory_skew s (mm_price s sma) (mm_spread s tr) sma"

section \<open>Class Trader\<close>

text \<open>The moving average of line 286.\<close>

definition moving_average :: "real list \<Rightarrow> real" where
  "moving_average w = sum_list w / 5"

text \<open>
  \<^verbatim>\<open>Trader.run\<close> (lines 264-298) for its single product \<^verbatim>\<open>'PEARLS'\<close>, without the
  printing: the orders of the tick and the updated \<^verbatim>\<open>Trader._data\<close>.
\<close>

definition run ::
  "TradingState \<Rightarrow> (string \<rightharpoonup> ProductData) \<Rightarrow>
     error + (string \<rightharpoonup> Order list) \<times> (string \<rightharpoonup> ProductData)" where
  "run st data =
     (case Status_init ''PEARLS'' st of Inl e \<Rightarrow> Inl e | Inr status \<Rightarrow>
     (case Status_init (product status) (state status) of Inl e \<Rightarrow> Inl e | Inr calculate \<Rightarrow>
     (case update_price calculate data of Inl e \<Rightarrow> Inl e | Inr data' \<Rightarrow>
     (case data' ''PEARLS'' of None \<Rightarrow> Inl KeyError | Some d \<Rightarrow>
     (case Status_init (product status) (state status) of Inl e \<Rightarrow> Inl e | Inr strategy \<Rightarrow>
     (case market_making strategy (trend d) (moving_average (data_price d)) of
        Inl e \<Rightarrow> Inl e
      | Inr orders \<Rightarrow> Inr ([''PEARLS'' \<mapsto> orders], data')))))))"

section \<open>Notions used by the statements\<close>

text \<open>The position after every order of an order set has been filled completely.\<close>

definition filled_position :: "Status \<Rightarrow> Order list \<Rightarrow> int" where
  "filled_position s os = position s + sum_list (map quantity os)"

text \<open>The same trading state with the position of one product set explicitly.\<close>

definition with_position :: "string \<Rightarrow> int \<Rightarrow> TradingState \<Rightarrow> TradingState" where
  "with_position prd p st = st\<lparr>state_position := (state_position st)(prd \<mapsto> p)\<rparr>"

text \<open>
  Successive ticks: \<^verbatim>\<open>update_price\<close> is called once per tick on the same
  \<^verbatim>\<open>Trader._data\<close>, which lives as long as the process.
\<close>

fun updates ::
  "Status list \<Rightarrow> (string \<rightharpoonup> ProductData) \<Rightarrow> error + (string \<rightharpoonup> ProductData)" where
  "updates [] data = Inr data"
| "updates (s # ss) data =
     (case update_price s data of Inl e \<Rightarrow> Inl e | Inr data' \<Rightarrow> updates ss data')"

text \<open>
  A small book for concrete runs: one bid level of 4 units at price 8, one ask level
  at price 10 whose resting quantity is a parameter (negative on the sell side).
\<close>

definition example_book :: "int \<Rightarrow> OrderDepth" where
  "example_book q = \<lparr>buy_orders = [(8, 4)], sell_orders = [(10, q)]\<rparr>"

definition example_state :: "int \<Rightarrow> int \<Rightarrow> int \<Rightarrow> TradingState" where
  "example_state ts p q =
     \<lparr>state_timestamp = ts,
      state_order_depths = [''PEARLS'' \<mapsto> example_book q],
      state_position = [''PEARLS'' \<mapsto> p]\<rparr>"

text \<open>The snapshot that the constructor builds from \<^const>\<open>example_state\<close>.\<close>

definition example_status :: "int \<Rightarrow> int \<Rightarrow> int \<Rightarrow> Status" where
  "example_status ts p q =
     \<lparr>product = ''PEARLS'', state = example_state ts p q,
      order_depth = example_book q, timestamp = ts, position = p, limit = 20,
      best_ask = 10, best_bid = 8, spread = 2, mid_price = 9,
      eff_spread = 2, mid_vwap = 9\<rparr>"

text \<open>The initial \<^verbatim>\<open>Trader._data\<close> (lines 229-233).\<close>

definition initial_data :: "string \<rightharpoonup> ProductData" where
  "initial_data =
     [''PEARLS'' \<mapsto> \<lparr>trend = 0.2, data_price = []\<rparr>,
      ''BANANAS'' \<mapsto> \<lparr>trend = 0.4, data_price = []\<rparr>]"

text \<open>
  Seven successive ticks, timestamps 0 to 600, of a market whose touch prices rise by
  one per tick; the mid-price of tick \<open>i\<close> is \<open>9 + i\<close>.
\<close>

definition tick_status :: "int \<Rightarrow> Status" where
  "tick_status i =
     \<lparr>product = ''PEARLS'',
      state = \<lparr>state_timestamp = 100 * i,
               state_order_depths =
                 [''PEARLS'' \<mapsto> \<lparr>buy_orders = [(8 + i, 4)], sell_orders = [(10 + i, - 5)]\<rparr>],
               state_position = Map.empty\<rparr>,
      order_depth = \<lparr>buy_orders = [(8 + i, 4)], sell_orders = [(10 + i, - 5)]\<rparr>,
      timestamp = 100 * i, position = 0, limit = 20,
      best_ask = 10 + i, best_bid = 8 + i, spread = 2, mid_price = 9 + of_int i,
      eff_spread = 2, mid_vwap = 9 + of_int i\<rparr>"

definition example_ticks :: "Status list" where
  "example_ticks =
     [tick_status 0, tick_status 1, tick_status 2, tick_status 3, tick_status 4,
      tick_status 5, tick_status 6]"

text \<open>A trading state whose sell side is empty, and one without a position entry.\<close>

definition empty_ask_state :: TradingState where
  "empty_ask_state =
     \<lparr>state_timestamp = 0,
      state_order_depths = [''PEARLS'' \<mapsto> \<lparr>buy_orders = [(8, 4)], sell_orders = []\<rparr>],
      state_position = Map.empty\<rparr>"

definition no_position_state :: "int \<Rightarrow> int \<Rightarrow> TradingState" where
  "no_position_state ts q = (example_state ts 0 q)\<lparr>state_position := Map.empty\<rparr>"

section \<open>Facts about the built-ins and the constructor\<close>

lemma py_min_mem: "py_min xs = Inr m \<Longrightarrow> m \<in> set xs"
proof (cases xs)
  case Nil
  then show "py_min xs = Inr m \<Longrightarrow> m \<in> set xs" by (simp add: py_min_def)
next
  case (Cons x ys)
  have "fold min ys a \<in> set (a # ys)" for a :: int
    by (induction ys arbitrary: a) (auto simp: min_def)
  with Cons show "py_min xs = Inr m \<Longrightarrow> m \<in> set xs" by (auto simp: py_min_def)
qed

lemma py_max_mem: "py_max xs = Inr m \<Longrightarrow> m \<in> set xs"
proof (cases xs)
  case Nil
  then show "py_max xs = Inr m \<Longrightarrow> m \<in> set xs" by (simp add: py_max_def)
next
  case (Cons x ys)
  have "fold max ys a \<in> set (a # ys)" for a :: int
    by (induction ys arbitrary: a) (auto simp: max_def)
  with Cons show "py_max xs = Inr m \<Longrightarrow> m \<in> set xs" by (auto simp: py_max_def)
qed

lemma py_getitem_key:
  "k \<in> set (map fst d) \<Longrightarrow> \<exists>q. map_of d k = Some q \<and> py_getitem d k = Inr q"
  by (cases "map_of d k") (auto simp: py_getitem_def map_of_eq_None_iff)

lemma POSITION_LIMITS_20: "POSITION_LIMITS prd = Some l \<Longrightarrow> l = 20"
  by (auto simp: POSITION_LIMITS_def split: if_splits)

lemma Status_init_Inr:
  assumes "Status_init prd st = Inr s"
  shows "product s = prd" "state s = st" "timestamp s = state_timestamp st"
    "position s = report_position prd st" "limit s = 20"
    "state_order_depths st prd = Some (order_depth s)"
    "py_min (map fst (sell_orders (order_depth s))) = Inr (best_ask s)"
    "py_max (map fst (buy_orders (order_depth s))) = Inr (best_bid s)"
    "spread_vwap (order_depth s) = Inr (eff_spread s, mid_vwap s)"
    "mid_price s = (of_int (best_ask s) + of_int (best_bid s)) / 2"
    "spread s = best_ask s - best_bid s"
  using assms
  by (auto simp: Status_init_def spread_mid_def split: option.splits sum.splits
      dest: POSITION_LIMITS_20)

lemma Status_init_touch:
  assumes "Status_init prd st = Inr s"
  shows "\<exists>aq bq. map_of (sell_orders (order_depth s)) (best_ask s) = Some aq \<and>
                 py_getitem (sell_orders (order_depth s)) (best_ask s) = Inr aq \<and>
                 map_of (buy_orders (order_depth s)) (best_bid s) = Some bq \<and>
                 py_getitem (buy_orders (order_depth s)) (best_bid s) = Inr bq"
  using py_getitem_key [OF py_min_mem [OF Status_init_Inr(7) [OF assms]]]
        py_getitem_key [OF py_max_mem [OF Status_init_Inr(8) [OF assms]]]
  by blast

lemma example_status_init:
  "q \<noteq> 0 \<Longrightarrow> Status_init ''PEARLS'' (example_state ts p q) = Inr (example_status ts p q)"
  by (simp add: Status_init_def example_state_def example_status_def example_book_def
      POSITION_LIMITS_def py_min_def py_max_def spread_vwap_def vwap_def py_round2_def
      py_round_def spread_mid_def report_position_def Let_def)

lemmas market_making_defs =
  market_making_def inventory_skew_def quote_prices_def quote_quantities_def
  quantity_shift_def stop_loss_def mm_price_def mm_spread_def price_shift_def
  py_getitem_def Let_def

lemma market_making_stop_loss:
  assumes "Status_init prd st = Inr s" and "stop_loss s"
  shows "\<exists>aq bq. map_of (sell_orders (order_depth s)) (best_ask s) = Some aq \<and>
           map_of (buy_orders (order_depth s)) (best_bid s) = Some bq \<and>
           market_making s tr sma =
             Inr [if 0 < position s then Order (product s) (best_ask s) aq
                  else Order (product s) (best_bid s) bq]"
proof -
  from Status_init_touch [OF assms(1)] obtain aq bq where
    "map_of (sell_orders (order_depth s)) (best_ask s) = Some aq"
    "py_getitem (sell_orders (order_depth s)) (best_ask s) = Inr aq"
    "map_of (buy_orders (order_depth s)) (best_bid s) = Some bq"
    "py_getitem (buy_orders (order_depth s)) (best_bid s) = Inr bq"
    by blast
  with assms(2) show ?thesis
    by (simp add: market_making_def inventory_skew_def split: prod.splits)
qed

lemma market_making_two_sided:
  assumes "\<not> stop_loss s"
  shows "market_making s tr sma =
     (let bid_price = fst (quote_prices (mm_price s sma) (mm_spread s tr));
          ask_price = snd (quote_prices (mm_price s sma) (mm_spread s tr))
      in if best_ask s < bid_price \<or> ask_price < best_bid s then Inr []
         else Inr [Order (product s) bid_price (fst (quote_quantities s sma)),
                   Order (product s) ask_price (snd (quote_quantities s sma))])"
  using assms by (simp add: market_making_def inventory_skew_def Let_def split: prod.splits)

lemma stop_loss_iff: "stop_loss s \<longleftrightarrow> 9 * limit s \<le> 10 * \<bar>position s\<bar>"
proof -
  have "stop_loss s \<longleftrightarrow> 9 * real_of_int (limit s) \<le> 10 * real_of_int \<bar>position s\<bar>"
    by (simp add: stop_loss_def ac_simps)
  also have "\<dots> \<longleftrightarrow> real_of_int (9 * limit s) \<le> real_of_int (10 * \<bar>position s\<bar>)"
    by simp
  also have "\<dots> \<longleftrightarrow> 9 * limit s \<le> 10 * \<bar>position s\<bar>"
    by (rule of_int_le_iff)
  finally show ?thesis .
qed

lemma quote_quantities_room:
  assumes "\<not> stop_loss s"
  shows "0 \<le> fst (quote_quantities s sma)"
    and "fst (quote_quantities s sma) \<le> limit s - max (position s) 0"
    and "- limit s - min (position s) 0 \<le> snd (quote_quantities s sma)"
    and "snd (quote_quantities s sma) \<le> 0"
proof -
  from assms have "10 * \<bar>position s\<bar> < 9 * limit s" by (simp add: stop_loss_iff)
  then have *: "0 \<le> limit s - max (position s) 0" "- limit s - min (position s) 0 \<le> 0"
    by linarith+
  show "0 \<le> fst (quote_quantities s sma)" by (simp add: quote_quantities_def Let_def)
  show "snd (quote_quantities s sma) \<le> 0" by (simp add: quote_quantities_def Let_def)
  from * show "fst (quote_quantities s sma) \<le> limit s - max (position s) 0"
    by (simp add: quote_quantities_def Let_def)
  from * show "- limit s - min (position s) 0 \<le> snd (quote_quantities s sma)"
    by (simp add: quote_quantities_def Let_def)
qed

lemma example_quotes:
  "market_making (example_status 0 0 (- 5)) 0.2 0 =
     Inr [Order ''PEARLS'' 8 20, Order ''PEARLS'' 9 (- 20)]"
  "market_making (example_status 0 (- 10) (- 5)) 0.2 0 =
     Inr [Order ''PEARLS'' 8 20, Order ''PEARLS'' 9 (- 5)]"
  by (simp_all add: market_making_defs example_status_def)

section \<open>Position limit\<close>

text \<open>
  Claim C1, as the code has it. For every snapshot that the constructor builds, the
  quote engine returns an order set. When the stop-loss is not triggered, the set is
  empty or a bid order and an ask order whose quantities are clamped, the bid to
  \<open>[0, limit - max(position, 0)]\<close> and the ask to
  \<open>[- limit - min(position, 0), 0]\<close>; so filling any selection of the emitted
  orders completely (the bid alone, the ask alone, both or none) leaves the position
  within \<open>[- limit, limit]\<close>. In the stop-loss branch the single order is at the
  touch and carries the resting quantity there unclamped, so the filled position is
  the position plus that resting quantity (the ask touch for a long position, the bid
  touch otherwise), whatever the limit.
\<close>

theorem position_limit_respected:
  assumes "Status_init prd st = Inr s"
  shows "\<exists>os. market_making s tr sma = Inr os \<and>
          (\<not> stop_loss s \<longrightarrow>
             (os = [] \<or>
              (\<exists>bid ask. os = [bid, ask] \<and>
                 0 \<le> quantity bid \<and> quantity bid \<le> limit s - max (position s) 0 \<and>
                 - limit s - min (position s) 0 \<le> quantity ask \<and> quantity ask \<le> 0)) \<and>
             (\<forall>fs. fs \<in> set (subseqs os) \<longrightarrow>
                - limit s \<le> filled_position s fs \<and> filled_position s fs \<le> limit s) \<and>
             - limit s \<le> filled_position s os \<and> filled_position s os \<le> limit s) \<and>
          (stop_loss s \<and> 0 < position s \<longrightarrow>
             (\<exists>q. map_of (sell_orders (order_depth s)) (best_ask s) = Some q \<and>
                  os = [Order prd (best_ask s) q] \<and>
                  filled_position s os = position s + q)) \<and>
          (stop_loss s \<and> position s \<le> 0 \<longrightarrow>
             (\<exists>q. map_of (buy_orders (order_depth s)) (best_bid s) = Some q \<and>
                  os = [Order prd (best_bid s) q] \<and>
                  filled_position s os = position s + q))"
proof (cases "stop_loss s")
  case True
  from market_making_stop_loss [OF assms True, of tr sma] show ?thesis
    using True Status_init_Inr(1) [OF assms] by (auto simp: filled_position_def)
next
  case False
  note q = quote_quantities_room [OF False, of sma]
  from False have b: "10 * \<bar>position s\<bar> < 9 * limit s" by (simp add: stop_loss_iff)
  define bq where "bq = fst (quote_quantities s sma)"
  define aq where "aq = snd (quote_quantities s sma)"
  have r: "0 \<le> bq" "bq \<le> limit s - max (position s) 0"
    "- limit s - min (position s) 0 \<le> aq" "aq \<le> 0"
    using q by (simp_all add: bq_def aq_def)
  have p: "- limit s \<le> position s" "position s \<le> limit s"
    using b by linarith+
  have f: "- limit s \<le> position s + bq" "position s + bq \<le> limit s"
    "- limit s \<le> position s + aq" "position s + aq \<le> limit s"
    "- limit s \<le> position s + (bq + aq)" "position s + (bq + aq) \<le> limit s"
    using r p by linarith+
  show ?thesis
    using False r p f
    by (auto simp: market_making_two_sided filled_position_def Let_def bq_def [symmetric]
        aq_def [symmetric])
qed

theorem position_limit_respected_witness:
  "Status_init ''PEARLS'' (example_state 0 0 (- 5)) = Inr (example_status 0 0 (- 5)) \<and>
   \<not> stop_loss (example_status 0 0 (- 5)) \<and>
   market_making (example_status 0 0 (- 5)) 0.2 0 =
     Inr [Order ''PEARLS'' 8 20, Order ''PEARLS'' 9 (- 20)] \<and>
   [Order ''PEARLS'' 8 20] \<in> set (subseqs [Order ''PEARLS'' 8 20, Order ''PEARLS'' 9 (- 20)]) \<and>
   filled_position (example_status 0 0 (- 5)) [Order ''PEARLS'' 8 20]
     \<le> limit (example_status 0 0 (- 5)) \<and>
   [Order ''PEARLS'' 9 (- 20)] \<in> set (subseqs [Order ''PEARLS'' 8 20, Order ''PEARLS'' 9 (- 20)]) \<and>
   - limit (example_status 0 0 (- 5))
     \<le> filled_position (example_status 0 0 (- 5)) [Order ''PEARLS'' 9 (- 20)] \<and>
   - limit (example_status 0 0 (- 5))
     \<le> filled_position (example_status 0 0 (- 5))
         [Order ''PEARLS'' 8 20, Order ''PEARLS'' 9 (- 20)] \<and>
   filled_position (example_status 0 0 (- 5))
       [Order ''PEARLS'' 8 20, Order ''PEARLS'' 9 (- 20)]
     \<le> limit (example_status 0 0 (- 5)) \<and>
   Status_init ''PEARLS'' (example_state 0 18 (- 5)) = Inr (example_status 0 18 (- 5)) \<and>
   stop_loss (example_status 0 18 (- 5)) \<and> 0 < position (example_status 0 18 (- 5)) \<and>
   (\<exists>os. market_making (example_status 0 18 (- 5)) 0.2 0 = Inr os \<and>
      os = [Order ''PEARLS'' 10 (- 5)] \<and>
      filled_position (example_status 0 18 (- 5)) os = 18 + (- 5)) \<and>
   Status_init ''PEARLS'' (example_state 0 (- 18) (- 5)) = Inr (example_status 0 (- 18) (- 5)) \<and>
   stop_loss (example_status 0 (- 18) (- 5)) \<and> position (example_status 0 (- 18) (- 5)) \<le> 0 \<and>
   (\<exists>os. market_making (example_status 0 (- 18) (- 5)) 0.2 0 = Inr os \<and>
      os = [Order ''PEARLS'' 8 4] \<and>
      filled_position (example_status 0 (- 18) (- 5)) os = - 18 + 4)"
proof -
  let ?s = "example_status 0 0 (- 5)"
  let ?b = "Order ''PEARLS'' 8 20"
  let ?a = "Order ''PEARLS'' 9 (- 20)"
  have i: "Status_init ''PEARLS'' (example_state 0 p (- 5)) = Inr (example_status 0 p (- 5))" for p
    by (simp add: example_status_init)
  have a: "\<not> stop_loss ?s"
    and b: "stop_loss (example_status 0 18 (- 5))" "0 < position (example_status 0 18 (- 5))"
    and c: "stop_loss (example_status 0 (- 18) (- 5))" "position (example_status 0 (- 18) (- 5)) \<le> 0"
    by (simp_all add: stop_loss_def example_status_def)
  have m: "market_making ?s 0.2 0 = Inr [?b, ?a]" by (rule example_quotes(1))
  have sb: "[?b] \<in> set (subseqs [?b, ?a])" and sa: "[?a] \<in> set (subseqs [?b, ?a])"
    and sw: "[?b, ?a] \<in> set (subseqs [?b, ?a])"
    by (simp_all add: Let_def)
  from position_limit_respected [OF i, of 0 "0.2" 0] a
  have all: "\<forall>fs. fs \<in> set (subseqs [?b, ?a]) \<longrightarrow>
      - limit ?s \<le> filled_position ?s fs \<and> filled_position ?s fs \<le> limit ?s"
    unfolding m by blast
  from all sb have 1: "filled_position ?s [?b] \<le> limit ?s" by blast
  from all sa have 2: "- limit ?s \<le> filled_position ?s [?a]" by blast
  from all sw have 3: "- limit ?s \<le> filled_position ?s [?b, ?a]"
    "filled_position ?s [?b, ?a] \<le> limit ?s" by blast+
  from position_limit_respected [OF i, of 18 "0.2" 0] b
  have 4: "\<exists>os. market_making (example_status 0 18 (- 5)) 0.2 0 = Inr os \<and>
      os = [Order ''PEARLS'' 10 (- 5)] \<and>
      filled_position (example_status 0 18 (- 5)) os = 18 + (- 5)"
    by (auto simp: example_status_def example_book_def)
  from position_limit_respected [OF i, of "- 18" "0.2" 0] c
  have 5: "\<exists>os. market_making (example_status 0 (- 18) (- 5)) 0.2 0 = Inr os \<and>
      os = [Order ''PEARLS'' 8 4] \<and>
      filled_position (example_status 0 (- 18) (- 5)) os = - 18 + 4"
    by (auto simp: example_status_def example_book_def)
  from i a m sb sa 1 2 3 b c 4 5 show ?thesis by blast
qed

text \<open>
  The claim as stated also covers the stop-loss branch, and fails there: long 18 units
  against 50 units resting at the best ask, the single order of \<open>- 50\<close> takes the
  position to \<open>- 32\<close>, below \<open>- 20\<close>.
\<close>

theorem position_limit_counterexample:
  "Status_init ''PEARLS'' (example_state 0 18 (- 50)) = Inr (example_status 0 18 (- 50)) \<and>
   market_making (example_status 0 18 (- 50)) 0.2 0 = Inr [Order ''PEARLS'' 10 (- 50)] \<and>
   filled_position (example_status 0 18 (- 50)) [Order ''PEARLS'' 10 (- 50)] = - 32 \<and>
   limit (example_status 0 18 (- 50)) = 20 \<and>
   \<not> (- limit (example_status 0 18 (- 50))
        \<le> filled_position (example_status 0 18 (- 50)) [Order ''PEARLS'' 10 (- 50)])"
  by (simp add: example_status_init filled_position_def)
     (simp add: market_making_defs example_status_def example_book_def)

section \<open>Quote validity\<close>

text \<open>
  Claim C2. When the stop-loss is not triggered, the quote engine emits either no
  order, or the pair of a bid order and an ask order at the candidate prices, and then
  the bid price is at most the best ask and the ask price at least the best bid.
\<close>

theorem no_marketable_quote:
  assumes "\<not> stop_loss s"
  shows "market_making s tr sma = Inr [] \<or>
         (\<exists>bid ask. market_making s tr sma = Inr [bid, ask] \<and>
            price bid = fst (quote_prices (mm_price s sma) (mm_spread s tr)) \<and>
            price ask = snd (quote_prices (mm_price s sma) (mm_spread s tr)) \<and>
            price bid \<le> best_ask s \<and> best_bid s \<le> price ask)"
  using assms by (auto simp: market_making_two_sided Let_def)

theorem no_marketable_quote_witness:
  "\<not> stop_loss (example_status 0 0 (- 5)) \<and>
   market_making (example_status 0 0 (- 5)) 0.2 0 =
     Inr [Order ''PEARLS'' 8 20, Order ''PEARLS'' 9 (- 20)] \<and>
   8 \<le> best_ask (example_status 0 0 (- 5)) \<and> best_bid (example_status 0 0 (- 5)) \<le> 9"
proof -
  have a: "\<not> stop_loss (example_status 0 0 (- 5))"
    by (simp add: stop_loss_def example_status_def)
  from no_marketable_quote [OF a, of "0.2" 0]
  have "8 \<le> best_ask (example_status 0 0 (- 5)) \<and> best_bid (example_status 0 0 (- 5)) \<le> 9"
    unfolding example_quotes by auto
  with a example_quotes(1) show ?thesis by blast
qed

section \<open>Stop-loss activation\<close>

text \<open>
  Claim C3. Every snapshot that the constructor builds has position limit 20. With a
  position of 18 the quote engine emits exactly one order, at the best ask, whose
  quantity is the resting quantity of the sell side at the best ask; with a position of
  \<open>- 18\<close> exactly one order, at the best bid, whose quantity is the resting quantity
  of the buy side at the best bid. The single-order (stop-loss) branch is taken exactly
  when \<open>abs(position) \<ge> 0.9 * limit\<close>.
\<close>

theorem stop_loss_activation:
  assumes "Status_init prd st = Inr s"
  shows "limit s = 20 \<and>
    (position s = 18 \<longrightarrow>
       (\<exists>q. map_of (sell_orders (order_depth s)) (best_ask s) = Some q \<and>
            market_making s tr sma = Inr [Order prd (best_ask s) q])) \<and>
    (position s = - 18 \<longrightarrow>
       (\<exists>q. map_of (buy_orders (order_depth s)) (best_bid s) = Some q \<and>
            market_making s tr sma = Inr [Order prd (best_bid s) q])) \<and>
    ((\<exists>ord. market_making s tr sma = Inr [ord]) \<longleftrightarrow>
       0.9 * real_of_int (limit s) \<le> real_of_int \<bar>position s\<bar>)"
proof -
  note f = Status_init_Inr [OF assms]
  have l: "limit s = 20" by (rule f)
  have sl: "stop_loss s \<longleftrightarrow> 18 \<le> \<bar>position s\<bar>"
    by (simp add: stop_loss_iff l)
  have long: "\<exists>q. map_of (sell_orders (order_depth s)) (best_ask s) = Some q \<and>
            market_making s tr sma = Inr [Order prd (best_ask s) q]" if "position s = 18"
    using market_making_stop_loss [OF assms, of tr sma] that sl f(1) by auto
  have short: "\<exists>q. map_of (buy_orders (order_depth s)) (best_bid s) = Some q \<and>
            market_making s tr sma = Inr [Order prd (best_bid s) q]" if "position s = - 18"
    using market_making_stop_loss [OF assms, of tr sma] that sl f(1) by auto
  have one: "(\<exists>ord. market_making s tr sma = Inr [ord]) \<longleftrightarrow> stop_loss s"
  proof (cases "stop_loss s")
    case True
    with market_making_stop_loss [OF assms True, of tr sma] show ?thesis by auto
  next
    case False
    then show ?thesis by (auto simp: market_making_two_sided Let_def)
  qed
  from l long short one show ?thesis by (simp add: stop_loss_def)
qed

theorem stop_loss_activation_witness:
  "Status_init ''PEARLS'' (example_state 0 18 (- 5)) = Inr (example_status 0 18 (- 5)) \<and>
   position (example_status 0 18 (- 5)) = 18 \<and>
   market_making (example_status 0 18 (- 5)) 0.2 0 = Inr [Order ''PEARLS'' 10 (- 5)] \<and>
   Status_init ''PEARLS'' (example_state 0 (- 18) (- 5)) = Inr (example_status 0 (- 18) (- 5)) \<and>
   position (example_status 0 (- 18) (- 5)) = - 18 \<and>
   market_making (example_status 0 (- 18) (- 5)) 0.2 0 = Inr [Order ''PEARLS'' 8 4]"
proof -
  have i: "Status_init ''PEARLS'' (example_state 0 p (- 5)) = Inr (example_status 0 p (- 5))" for p
    by (simp add: example_status_init)
  have p: "position (example_status 0 18 (- 5)) = 18" "position (example_status 0 (- 18) (- 5)) = - 18"
    by (simp_all add: example_status_def)
  from stop_loss_activation [OF i, of 18 "0.2" 0] p(1)
  have 1: "market_making (example_status 0 18 (- 5)) 0.2 0 = Inr [Order ''PEARLS'' 10 (- 5)]"
    by (auto simp: example_status_def example_book_def)
  from stop_loss_activation [OF i, of "- 18" "0.2" 0] p(2)
  have 2: "market_making (example_status 0 (- 18) (- 5)) 0.2 0 = Inr [Order ''PEARLS'' 8 4]"
    by (auto simp: example_status_def example_book_def)
  from i p 1 2 show ?thesis by simp
qed


section \<open>Inventory skew\<close>

lemma Status_init_with_position:
  "Status_init prd (with_position prd p st) =
     (case Status_init prd st of Inl e \<Rightarrow> Inl e
      | Inr s \<Rightarrow> Inr (s\<lparr>state := with_position prd p st, position := p\<rparr>))"
  by (simp add: Status_init_def with_position_def report_position_def
      split: option.splits sum.splits prod.splits)

lemma example_with_position:
  "with_position ''PEARLS'' p (example_state ts p0 q) = example_state ts p q"
  by (simp add: with_position_def example_state_def)

lemma bid_clamp_mono:
  fixes bl1 bl2 x1 x2 sh :: int
  assumes "bl2 \<le> bl1" and "x2 \<le> x1"
  shows "max (min bl2 (max x2 0 + sh)) 0 \<le> max (min bl1 (max x1 0 + sh)) 0"
proof -
  from assms(2) have "max x2 0 + sh \<le> max x1 0 + sh" by simp
  with assms(1) have "min bl2 (max x2 0 + sh) \<le> min bl1 (max x1 0 + sh)"
    by (rule min.mono)
  then show ?thesis by (rule max.mono) simp
qed

lemma ask_clamp_mono:
  fixes al1 al2 x1 x2 sh :: int
  assumes "al2 \<le> al1" and "x2 \<le> x1"
  shows "min (max al2 (min x2 0 + sh)) 0 \<le> min (max al1 (min x1 0 + sh)) 0"
proof -
  from assms(2) have "min x2 0 + sh \<le> min x1 0 + sh" by simp
  with assms(1) have "max al2 (min x2 0 + sh) \<le> max al1 (min x1 0 + sh)"
    by (rule max.mono)
  then show ?thesis by (rule min.mono) simp
qed

lemma quote_quantities_mono:
  assumes "position s1 \<le> position s2" and "limit s2 = limit s1"
    and "quantity_shift s2 sma = quantity_shift s1 sma"
  shows "fst (quote_quantities s2 sma) \<le> fst (quote_quantities s1 sma)"
    and "snd (quote_quantities s2 sma) \<le> snd (quote_quantities s1 sma)"
proof -
  let ?bs = "\<lambda>s. \<lfloor>0.5 * real_of_int (max (position s) 0)\<rfloor>"
  let ?as = "\<lambda>s. \<lceil>0.5 * real_of_int (min (position s) 0)\<rceil>"
  from assms(1) have m: "max (position s1) 0 \<le> max (position s2) 0"
    "min (position s1) 0 \<le> min (position s2) 0" by simp_all
  from m(1) have "0.5 * real_of_int (max (position s1) 0) \<le> 0.5 * real_of_int (max (position s2) 0)"
    by simp
  then have bs: "?bs s1 \<le> ?bs s2" by (rule floor_mono)
  from m(2) have "0.5 * real_of_int (min (position s1) 0) \<le> 0.5 * real_of_int (min (position s2) 0)"
    by simp
  then have as: "?as s1 \<le> ?as s2" by (rule ceiling_mono)
  have b1: "limit s1 - max (position s2) 0 \<le> limit s1 - max (position s1) 0"
    using m(1) by linarith
  have b2: "limit s1 - max (position s2) 0 - ?bs s2 \<le> limit s1 - max (position s1) 0 - ?bs s1"
    using m(1) bs by linarith
  have a1: "- limit s1 - min (position s2) 0 \<le> - limit s1 - min (position s1) 0"
    using m(2) by linarith
  have a2: "- limit s1 - min (position s2) 0 - ?as s2 \<le> - limit s1 - min (position s1) 0 - ?as s1"
    using m(2) as by linarith
  show "fst (quote_quantities s2 sma) \<le> fst (quote_quantities s1 sma)"
    unfolding quote_quantities_def Let_def fst_conv assms(2,3)
    by (rule bid_clamp_mono [OF b1 b2])
  show "snd (quote_quantities s2 sma) \<le> snd (quote_quantities s1 sma)"
    unfolding quote_quantities_def Let_def snd_conv assms(2,3)
    by (rule ask_clamp_mono [OF a1 a2])
qed

text \<open>
  Claim C4, as the code has it. Take two snapshots of the same trading state that
  differ only in the position, \<open>p1 < p2\<close>, neither in the stop-loss branch. The
  candidate prices do not depend on the position, so the quote engine emits no order
  for both or a two-sided quote at the same prices for both; then the bid quantity at
  \<open>p2\<close> is not greater than at \<open>p1\<close>, and the ask quantity at \<open>p2\<close> is not
  greater than at \<open>p1\<close> either: a larger position never lowers the size offered for
  sale.
\<close>

theorem inventory_skew_monotone:
  assumes "Status_init prd (with_position prd p1 st) = Inr s1"
    and "Status_init prd (with_position prd p2 st) = Inr s2"
    and "p1 < p2" and "\<not> stop_loss s1" and "\<not> stop_loss s2"
  shows "(market_making s1 tr sma = Inr [] \<and> market_making s2 tr sma = Inr []) \<or>
         (\<exists>bp ap b1 a1 b2 a2.
            market_making s1 tr sma = Inr [Order prd bp b1, Order prd ap a1] \<and>
            market_making s2 tr sma = Inr [Order prd bp b2, Order prd ap a2] \<and>
            b2 \<le> b1 \<and> a2 \<le> a1)"
proof -
  from assms(1,2) obtain s where
    s1: "s1 = s\<lparr>state := with_position prd p1 st, position := p1\<rparr>" and
    s2: "s2 = s\<lparr>state := with_position prd p2 st, position := p2\<rparr>"
    by (auto simp: Status_init_with_position split: sum.splits)
  have prd: "product s1 = prd" "product s2 = prd"
    using Status_init_Inr(1) [OF assms(1)] Status_init_Inr(1) [OF assms(2)] by simp_all
  have same: "quote_prices (mm_price s2 sma) (mm_spread s2 tr) =
              quote_prices (mm_price s1 sma) (mm_spread s1 tr)"
    "best_ask s2 = best_ask s1" "best_bid s2 = best_bid s1"
    by (simp_all add: s1 s2 mm_price_def mm_spread_def price_shift_def)
  have "position s1 \<le> position s2" "limit s2 = limit s1"
    "quantity_shift s2 sma = quantity_shift s1 sma"
    using assms(3) by (simp_all add: s1 s2 quantity_shift_def)
  note mono = quote_quantities_mono [OF this]
  show ?thesis
    using mono
    by (simp add: market_making_two_sided [OF assms(4)] market_making_two_sided [OF assms(5)]
        same prd Let_def)
qed

theorem inventory_skew_monotone_witness:
  "Status_init ''PEARLS'' (with_position ''PEARLS'' 0 (example_state 0 0 (- 5))) =
     Inr (example_status 0 0 (- 5)) \<and>
   Status_init ''PEARLS'' (with_position ''PEARLS'' 10 (example_state 0 0 (- 5))) =
     Inr (example_status 0 10 (- 5)) \<and>
   (0 :: int) < 10 \<and>
   \<not> stop_loss (example_status 0 0 (- 5)) \<and> \<not> stop_loss (example_status 0 10 (- 5)) \<and>
   (\<exists>bp ap b1 a1 b2 a2.
      market_making (example_status 0 0 (- 5)) 0.2 0 =
        Inr [Order ''PEARLS'' bp b1, Order ''PEARLS'' ap a1] \<and>
      market_making (example_status 0 10 (- 5)) 0.2 0 =
        Inr [Order ''PEARLS'' bp b2, Order ''PEARLS'' ap a2] \<and>
      b2 \<le> b1 \<and> a2 \<le> a1)"
proof -
  have i: "Status_init ''PEARLS'' (with_position ''PEARLS'' p (example_state 0 0 (- 5))) =
           Inr (example_status 0 p (- 5))" for p
    by (simp add: example_with_position example_status_init)
  have n: "\<not> stop_loss (example_status 0 0 (- 5))" "\<not> stop_loss (example_status 0 10 (- 5))"
    by (simp_all add: stop_loss_def example_status_def)
  have l: "(0 :: int) < 10" by simp
  have ne: "market_making (example_status 0 0 (- 5)) 0.2 0 \<noteq> Inr []"
    unfolding example_quotes by simp
  from inventory_skew_monotone [OF i i l n, of "0.2" 0] ne
  have "\<exists>bp ap b1 a1 b2 a2.
      market_making (example_status 0 0 (- 5)) 0.2 0 =
        Inr [Order ''PEARLS'' bp b1, Order ''PEARLS'' ap a1] \<and>
      market_making (example_status 0 10 (- 5)) 0.2 0 =
        Inr [Order ''PEARLS'' bp b2, Order ''PEARLS'' ap a2] \<and>
      b2 \<le> b1 \<and> a2 \<le> a1"
    by blast
  with i n l show ?thesis by blast
qed

text \<open>
  The claim as stated asks for the opposite direction on the ask side, and fails:
  moving from a short position of 10 to a flat position takes the ask quantity from
  \<open>- 5\<close> to \<open>- 20\<close>, more negative.
\<close>

theorem inventory_skew_monotone_counterexample:
  "Status_init ''PEARLS'' (with_position ''PEARLS'' (- 10) (example_state 0 0 (- 5))) =
     Inr (example_status 0 (- 10) (- 5)) \<and>
   Status_init ''PEARLS'' (with_position ''PEARLS'' 0 (example_state 0 0 (- 5))) =
     Inr (example_status 0 0 (- 5)) \<and>
   (- 10 :: int) < 0 \<and>
   \<not> stop_loss (example_status 0 (- 10) (- 5)) \<and> \<not> stop_loss (example_status 0 0 (- 5)) \<and>
   market_making (example_status 0 (- 10) (- 5)) 0.2 0 =
     Inr [Order ''PEARLS'' 8 20, Order ''PEARLS'' 9 (- 5)] \<and>
   market_making (example_status 0 0 (- 5)) 0.2 0 =
     Inr [Order ''PEARLS'' 8 20, Order ''PEARLS'' 9 (- 20)] \<and>
   \<not> (- 5 :: int) \<le> - 20"
proof -
  have i: "Status_init ''PEARLS'' (with_position ''PEARLS'' p (example_state 0 0 (- 5))) =
           Inr (example_status 0 p (- 5))" for p
    by (simp add: example_with_position example_status_init)
  have n: "\<not> stop_loss (example_status 0 (- 10) (- 5))" "\<not> stop_loss (example_status 0 0 (- 5))"
    by (simp_all add: stop_loss_def example_status_def)
  have l: "(- 10 :: int) < 0" "\<not> (- 5 :: int) \<le> - 20" by simp_all
  from i n l example_quotes show ?thesis by blast
qed

section \<open>Warm-up gating\<close>

text \<open>
  Claim C5. For every snapshot whose timestamp is below 400, the reservation-price
  shift is zero, so the reservation price is the mid-VWAP, the quantity shift is zero,
  and the quoted sizes and the whole order set are the same whatever moving average
  is passed in.
\<close>

theorem warm_up_gating:
  assumes "Status_init prd st = Inr s" and "state_timestamp st < 400"
  shows "price_shift s sma = 0 \<and> mm_price s sma = mid_vwap s \<and>
         quantity_shift s sma = 0 \<and>
         quote_quantities s sma = quote_quantities s sma' \<and>
         market_making s tr sma = market_making s tr sma'"
proof -
  from Status_init_Inr(3) [OF assms(1)] assms(2) have t: "timestamp s < 400" by simp
  then have z: "price_shift s x = 0" "quantity_shift s x = 0" for x
    by (simp_all add: price_shift_def quantity_shift_def)
  then have mp: "mm_price s x = mid_vwap s" for x
    by (simp add: mm_price_def)
  have qq: "quote_quantities s sma = quote_quantities s sma'"
    by (simp add: quote_quantities_def z)
  have "market_making s tr sma = market_making s tr sma'"
    unfolding market_making_def inventory_skew_def mp qq by (rule refl)
  with z mp qq show ?thesis by simp
qed

theorem warm_up_gating_witness:
  "Status_init ''PEARLS'' (example_state 300 0 (- 5)) = Inr (example_status 300 0 (- 5)) \<and>
   state_timestamp (example_state 300 0 (- 5)) < 400 \<and>
   price_shift (example_status 300 0 (- 5)) 1000 = 0 \<and>
   mm_price (example_status 300 0 (- 5)) 1000 = mid_vwap (example_status 300 0 (- 5)) \<and>
   quantity_shift (example_status 300 0 (- 5)) 1000 = 0 \<and>
   market_making (example_status 300 0 (- 5)) 0.2 1000 =
     market_making (example_status 300 0 (- 5)) 0.2 0"
proof -
  have i: "Status_init ''PEARLS'' (example_state 300 0 (- 5)) = Inr (example_status 300 0 (- 5))"
    by (simp add: example_status_init)
  have t: "state_timestamp (example_state 300 0 (- 5)) < 400"
    by (simp add: example_state_def)
  from warm_up_gating [OF i t, of 1000 0 "0.2"] i t show ?thesis by blast
qed

section \<open>Candidate prices\<close>

lemma quote_prices_bounds:
  assumes "0 \<le> sp"
  shows "real_of_int (fst (quote_prices pr sp)) < pr"
    and "pr \<le> real_of_int (snd (quote_prices pr sp))"
    and "real_of_int (snd (quote_prices pr sp)) = pr \<longleftrightarrow> pr \<in> \<int> \<and> sp < 2"
proof -
  define bid0 where "bid0 = \<lceil>pr - sp / 2\<rceil>"
  define bid where "bid = (if pr \<le> of_int bid0 then bid0 - 1 else bid0)"
  define ask0 where "ask0 = \<lfloor>pr + sp / 2\<rfloor>"
  define ask where "ask = (if of_int ask0 \<le> pr then bid + 1 else ask0)"
  have qp: "quote_prices pr sp = (bid, ask)"
    by (simp add: quote_prices_def Let_def bid0_def bid_def ask0_def ask_def)
  have c: "real_of_int bid0 < pr - sp / 2 + 1" "pr - sp / 2 \<le> real_of_int bid0"
    unfolding bid0_def by linarith+
  have f: "real_of_int ask0 \<le> pr + sp / 2" "pr + sp / 2 < real_of_int ask0 + 1"
    unfolding ask0_def by linarith+
  show "real_of_int (fst (quote_prices pr sp)) < pr"
    using c assms by (simp add: qp bid_def)
  show "pr \<le> real_of_int (snd (quote_prices pr sp))"
    using c f assms by (simp add: qp ask_def bid_def)
  show "real_of_int (snd (quote_prices pr sp)) = pr \<longleftrightarrow> pr \<in> \<int> \<and> sp < 2"
  proof
    assume e: "real_of_int (snd (quote_prices pr sp)) = pr"
    then have "pr \<in> \<int>" by (metis Ints_of_int)
    moreover from e c f assms have "sp < 2"
      by (simp add: qp ask_def bid_def split: if_splits)
    ultimately show "pr \<in> \<int> \<and> sp < 2" ..
  next
    assume "pr \<in> \<int> \<and> sp < 2"
    then obtain n where n: "pr = of_int n" and s: "sp < 2" by (auto elim: Ints_cases)
    from n s assms have "bid0 = n" unfolding bid0_def by (simp add: ceiling_eq_iff)
    moreover from n s assms have "ask0 = n" unfolding ask0_def by (simp add: floor_eq_iff)
    ultimately show "real_of_int (snd (quote_prices pr sp)) = pr"
      unfolding qp snd_conv ask_def bid_def by (simp add: n)
  qed
qed

text \<open>
  Claim C6 at a concrete book. One bid level at 8 and one ask level at 10 give the
  reservation price 9 and, with trend 0.2, the quoted spread 1.6. The candidate bid is
  8, strictly below the reservation price, but the candidate ask is 9: equal to the
  reservation price, not strictly above it, and this quote is emitted.
\<close>

theorem candidate_ask_not_strict:
  "Status_init ''PEARLS'' (example_state 0 0 (- 5)) = Inr (example_status 0 0 (- 5)) \<and>
   mm_price (example_status 0 0 (- 5)) 0 = 9 \<and>
   mm_spread (example_status 0 0 (- 5)) 0.2 = 1.6 \<and>
   quote_prices 9 1.6 = (8, 9) \<and>
   market_making (example_status 0 0 (- 5)) 0.2 0 =
     Inr [Order ''PEARLS'' 8 20, Order ''PEARLS'' 9 (- 20)] \<and>
   real_of_int (snd (quote_prices 9 1.6)) = mm_price (example_status 0 0 (- 5)) 0"
proof -
  have "Status_init ''PEARLS'' (example_state 0 0 (- 5)) = Inr (example_status 0 0 (- 5))"
    by (simp add: example_status_init)
  moreover have "mm_price (example_status 0 0 (- 5)) 0 = 9"
    by (simp add: mm_price_def price_shift_def example_status_def)
  moreover have "mm_spread (example_status 0 0 (- 5)) 0.2 = 1.6"
    by (simp add: mm_spread_def example_status_def)
  moreover have q: "quote_prices 9 1.6 = (8, 9)"
    by (simp add: quote_prices_def Let_def)
  moreover have "real_of_int (snd (quote_prices 9 1.6)) = mm_price (example_status 0 0 (- 5)) 0"
    unfolding q by (simp add: mm_price_def price_shift_def example_status_def)
  ultimately show ?thesis using example_quotes(1) by blast
qed

section \<open>Price history\<close>

lemma updates_window:
  assumes "data prd = Some d"
    and "length (data_price d) = min k 5"
    and "\<forall>i<length ss. product (ss ! i) = prd \<and> timestamp (ss ! i) = 100 * int (k + i)"
  shows "\<exists>data' d'. updates ss data = Inr data' \<and> data' prd = Some d' \<and>
           trend d' = trend d \<and>
           data_price d' =
             drop (length (data_price d) + length ss - 5) (data_price d @ map mid_price ss)"
  using assms
proof (induction ss arbitrary: data d k)
  case Nil
  then show ?case by simp
next
  case (Cons s ss)
  from Cons.prems(3) have s: "product s = prd" "timestamp s = 100 * int k"
    by force+
  let ?w = "update_window (timestamp s) (mid_price s) (data_price d)"
  let ?d = "d\<lparr>data_price := ?w\<rparr>"
  let ?data = "data(prd \<mapsto> ?d)"
  have up: "update_price s data = Inr ?data"
    by (simp add: update_price_def s(1) Cons.prems(1))
  have w: "?w = (if 5 \<le> k then tl (data_price d) else data_price d) @ [mid_price s]"
    by (cases "data_price d") (auto simp: update_window_def s(2))
  have len: "length (data_price ?d) = min (Suc k) 5"
    using Cons.prems(2) by (auto simp: w)
  have rest: "\<forall>i<length ss. product (ss ! i) = prd \<and> timestamp (ss ! i) = 100 * int (Suc k + i)"
    using Cons.prems(3) by fastforce
  have "?data prd = Some ?d" by simp
  from Cons.IH [of ?data ?d "Suc k", OF this len rest] obtain data' d' where
    r: "updates ss ?data = Inr data'" "data' prd = Some d'" "trend d' = trend ?d"
      "data_price d' = drop (length (data_price ?d) + length ss - 5) (data_price ?d @ map mid_price ss)"
    by blast
  have "drop (length (data_price ?d) + length ss - 5) (data_price ?d @ map mid_price ss) =
        drop (length (data_price d) + length (s # ss) - 5) (data_price d @ map mid_price (s # ss))"
  proof (cases "5 \<le> k")
    case True
    with Cons.prems(2) have l5: "length (data_price d) = 5" by simp
    have dp: "data_price ?d = tl (data_price d) @ [mid_price s]"
      using True by (simp add: w)
    show ?thesis
      unfolding dp using l5 by (cases "data_price d") simp_all
  next
    case False
    then show ?thesis by (simp add: w)
  qed
  with r up show ?case by simp
qed

text \<open>
  Claim C7. Starting from an empty window, after one update per tick at timestamps
  0, 100, 200, ... the window holds at most 5 entries, and they are the most recent
  mid-prices in arrival order: all of them for up to 5 updates, the last 5 from then
  on (its length is then exactly 5).
\<close>

theorem history_window_fifo:
  assumes "data prd = Some d" and "data_price d = []"
    and "\<forall>i<length ss. product (ss ! i) = prd \<and> timestamp (ss ! i) = 100 * int i"
  shows "\<exists>data' d'. updates ss data = Inr data' \<and> data' prd = Some d' \<and>
           length (data_price d') \<le> 5 \<and>
           data_price d' = drop (length ss - 5) (map mid_price ss) \<and>
           (5 \<le> length ss \<longrightarrow> length (data_price d') = 5)"
proof -
  have "length (data_price d) = min 0 5" by (simp add: assms(2))
  moreover have "\<forall>i<length ss. product (ss ! i) = prd \<and> timestamp (ss ! i) = 100 * int (0 + i)"
    using assms(3) by simp
  ultimately obtain data' d' where
    "updates ss data = Inr data'" "data' prd = Some d'"
    "data_price d' =
       drop (length (data_price d) + length ss - 5) (data_price d @ map mid_price ss)"
    using updates_window [of data prd d 0 ss, OF assms(1)] by blast
  then show ?thesis by (auto simp: assms(2))
qed

theorem history_window_fifo_witness:
  "initial_data ''PEARLS'' = Some \<lparr>trend = 0.2, data_price = []\<rparr> \<and>
   data_price \<lparr>trend = 0.2, data_price = []\<rparr> = [] \<and>
   map product example_ticks = replicate 7 ''PEARLS'' \<and>
   map timestamp example_ticks = [0, 100, 200, 300, 400, 500, 600] \<and>
   (\<exists>data' d'. updates example_ticks initial_data = Inr data' \<and> data' ''PEARLS'' = Some d' \<and>
      length (data_price d') = 5 \<and> data_price d' = [11, 12, 13, 14, 15])"
proof -
  have a: "initial_data ''PEARLS'' = Some \<lparr>trend = 0.2, data_price = []\<rparr>"
    by (simp add: initial_data_def)
  have b: "data_price \<lparr>trend = 0.2, data_price = []\<rparr> = []" by simp
  have c: "\<forall>i<length example_ticks.
      product (example_ticks ! i) = ''PEARLS'' \<and> timestamp (example_ticks ! i) = 100 * int i"
    by (simp add: example_ticks_def tick_status_def nth_Cons' All_less_Suc numeral_eq_Suc)
  have m: "drop (length example_ticks - 5) (map mid_price example_ticks) = [11, 12, 13, 14, 15]"
    by (simp add: example_ticks_def tick_status_def)
  from history_window_fifo
    [of initial_data "''PEARLS''" "\<lparr>trend = 0.2, data_price = []\<rparr>" example_ticks, OF a b c]
  have "\<exists>data' d'. updates example_ticks initial_data = Inr data' \<and> data' ''PEARLS'' = Some d' \<and>
      length (data_price d') = 5 \<and> data_price d' = [11, 12, 13, 14, 15]"
    unfolding m by (auto simp: example_ticks_def)
  moreover have "map product example_ticks = replicate 7 ''PEARLS''"
    "map timestamp example_ticks = [0, 100, 200, 300, 400, 500, 600]"
    by (simp_all add: example_ticks_def tick_status_def numeral_eq_Suc)
  ultimately show ?thesis using a b by blast
qed

section \<open>Moving average\<close>

lemma run_Inr:
  "run st data = Inr (result, data') \<longleftrightarrow>
     (\<exists>s d' orders. Status_init ''PEARLS'' st = Inr s \<and> update_price s data = Inr data' \<and>
        data' ''PEARLS'' = Some d' \<and>
        market_making s (trend d') (moving_average (data_price d')) = Inr orders \<and>
        result = [''PEARLS'' \<mapsto> orders])"
proof (cases "Status_init ''PEARLS'' st")
  case (Inl e)
  then show ?thesis by (simp add: run_def)
next
  case (Inr s)
  note f = Status_init_Inr(1,2) [OF Inr]
  show ?thesis
    by (auto simp: run_def Inr f split: sum.splits option.splits)
qed

lemma example_run_400:
  "run (example_state 400 0 (- 5)) initial_data =
     Inr ([''PEARLS'' \<mapsto> []], initial_data(''PEARLS'' \<mapsto> \<lparr>trend = 0.2, data_price = [9]\<rparr>))"
proof -
  have i: "Status_init ''PEARLS'' (example_state 400 0 (- 5)) = Inr (example_status 400 0 (- 5))"
    by (simp add: example_status_init)
  have f: "product (example_status 400 0 (- 5)) = ''PEARLS''"
    "state (example_status 400 0 (- 5)) = example_state 400 0 (- 5)"
    by (simp_all add: example_status_def)
  have u: "update_price (example_status 400 0 (- 5)) initial_data =
      Inr (initial_data(''PEARLS'' \<mapsto> \<lparr>trend = 0.2, data_price = [9]\<rparr>))"
    by (simp add: update_price_def update_window_def initial_data_def example_status_def)
  have m: "market_making (example_status 400 0 (- 5)) 0.2 (moving_average [9]) = Inr []"
    by (simp add: market_making_defs moving_average_def py_round_def example_status_def)
  show ?thesis
    unfolding run_def i sum.case f u fun_upd_same option.case ProductData.select_convs m
    by (rule refl)
qed

text \<open>
  Claim C8. Whenever \<^const>\<open>run\<close> returns, the moving average that it hands to the
  quote engine is the sum of the entries of the updated window divided by 5, whatever
  the number of entries. For a window of at most 5 entries this is the mean of the
  window padded with zeros to 5 entries: an entry that does not exist yet contributes
  zero.
\<close>

theorem fixed_divisor_moving_average:
  assumes "run st data = Inr (result, data')"
  shows "\<exists>s d' orders. Status_init ''PEARLS'' st = Inr s \<and> update_price s data = Inr data' \<and>
           data' ''PEARLS'' = Some d' \<and> result = [''PEARLS'' \<mapsto> orders] \<and>
           market_making s (trend d') (sum_list (data_price d') / 5) = Inr orders \<and>
           moving_average (data_price d') = sum_list (data_price d') / 5 \<and>
           (length (data_price d') \<le> 5 \<longrightarrow>
              length (data_price d' @ replicate (5 - length (data_price d')) 0) = 5 \<and>
              moving_average (data_price d') =
                sum_list (data_price d' @ replicate (5 - length (data_price d')) 0) / 5)"
proof -
  from assms obtain s d' orders where
    "Status_init ''PEARLS'' st = Inr s" "update_price s data = Inr data'"
    "data' ''PEARLS'' = Some d'"
    "market_making s (trend d') (moving_average (data_price d')) = Inr orders"
    "result = [''PEARLS'' \<mapsto> orders]"
    unfolding run_Inr by blast
  then show ?thesis by (auto simp: moving_average_def sum_list_replicate)
qed

theorem fixed_divisor_moving_average_witness:
  "run (example_state 400 0 (- 5)) initial_data =
     Inr ([''PEARLS'' \<mapsto> []], initial_data(''PEARLS'' \<mapsto> \<lparr>trend = 0.2, data_price = [9]\<rparr>)) \<and>
   market_making (example_status 400 0 (- 5)) 0.2 (sum_list [9] / 5) = Inr [] \<and>
   moving_average [9] = 9 / 5 \<and>
   length ([9 :: real] @ replicate (5 - length [9 :: real]) 0) = 5 \<and>
   moving_average [9] = sum_list ([9] @ replicate (5 - length [9 :: real]) 0) / 5"
proof -
  from fixed_divisor_moving_average [OF example_run_400] obtain s d' orders where
    s: "Status_init ''PEARLS'' (example_state 400 0 (- 5)) = Inr s"
    and d: "(initial_data(''PEARLS'' \<mapsto> \<lparr>trend = 0.2, data_price = [9]\<rparr>)) ''PEARLS'' = Some d'"
    and r: "[''PEARLS'' \<mapsto> []] = [''PEARLS'' \<mapsto> orders]"
    and m: "market_making s (trend d') (sum_list (data_price d') / 5) = Inr orders"
    and a: "moving_average (data_price d') = sum_list (data_price d') / 5"
    and z: "length (data_price d') \<le> 5 \<longrightarrow>
              length (data_price d' @ replicate (5 - length (data_price d')) 0) = 5 \<and>
              moving_average (data_price d') =
                sum_list (data_price d' @ replicate (5 - length (data_price d')) 0) / 5"
    by blast
  from s have s': "s = example_status 400 0 (- 5)" by (simp add: example_status_init)
  from d have d': "d' = \<lparr>trend = 0.2, data_price = [9]\<rparr>" by simp
  from r have o: "orders = []" by (metis map_upd_eqD1)
  have 1: "market_making (example_status 400 0 (- 5)) 0.2 (sum_list [9] / 5) = Inr []"
    using m unfolding s' d' o by simp
  have 2: "moving_average [9] = 9 / 5" using a unfolding d' by simp
  have 3: "length ([9 :: real] @ replicate (5 - length [9 :: real]) 0) = 5 \<and>
     moving_average [9] = sum_list ([9] @ replicate (5 - length [9 :: real]) 0) / 5"
    using z unfolding d' by simp
  from example_run_400 1 2 3 show ?thesis by blast
qed

section \<open>Missing book side\<close>

text \<open>
  Claim C9. For an order book whose sell side or buy side is empty, the constructor
  returns an error and no snapshot: ValueError, from \<^verbatim>\<open>min\<close> or \<^verbatim>\<open>max\<close> of no
  keys, for a product with a position limit, and \<^const>\<open>run\<close> fails with it. Where
  the constructor succeeds, both sides of the book are non-empty.
\<close>

theorem missing_book_side_fails:
  assumes "state_order_depths st prd = Some od"
  shows "(sell_orders od = [] \<or> buy_orders od = [] \<longrightarrow>
            (\<exists>e. Status_init prd st = Inl e) \<and>
            (POSITION_LIMITS prd \<noteq> None \<longrightarrow> Status_init prd st = Inl ValueError) \<and>
            (prd = ''PEARLS'' \<longrightarrow> run st data = Inl ValueError)) \<and>
         ((\<exists>s. Status_init prd st = Inr s) \<longrightarrow> sell_orders od \<noteq> [] \<and> buy_orders od \<noteq> [])"
proof -
  have e: "Status_init prd st = Inl (if POSITION_LIMITS prd = None then KeyError else ValueError)"
    if "sell_orders od = [] \<or> buy_orders od = []"
    using that assms
    by (auto simp: Status_init_def py_min_def py_max_def split: option.splits sum.splits list.splits)
  have p: "POSITION_LIMITS ''PEARLS'' \<noteq> None" by (simp add: POSITION_LIMITS_def)
  have r: "run st data = Inl ValueError"
    if "sell_orders od = [] \<or> buy_orders od = []" "prd = ''PEARLS''"
    using e [OF that(1)] p that(2) by (simp add: run_def)
  from e r show ?thesis by auto
qed

theorem missing_book_side_fails_witness:
  "state_order_depths empty_ask_state ''PEARLS'' =
     Some \<lparr>buy_orders = [(8, 4)], sell_orders = []\<rparr> \<and>
   Status_init ''PEARLS'' empty_ask_state = Inl ValueError \<and>
   run empty_ask_state initial_data = Inl ValueError \<and>
   state_order_depths (example_state 0 0 (- 5)) ''PEARLS'' = Some (example_book (- 5)) \<and>
   Status_init ''PEARLS'' (example_state 0 0 (- 5)) = Inr (example_status 0 0 (- 5)) \<and>
   sell_orders (example_book (- 5)) \<noteq> [] \<and> buy_orders (example_book (- 5)) \<noteq> []"
proof -
  have a: "state_order_depths empty_ask_state ''PEARLS'' =
     Some \<lparr>buy_orders = [(8, 4)], sell_orders = []\<rparr>"
    by (simp add: empty_ask_state_def)
  have p: "POSITION_LIMITS ''PEARLS'' \<noteq> None" by (simp add: POSITION_LIMITS_def)
  from missing_book_side_fails [OF a, of initial_data] p
  have 1: "Status_init ''PEARLS'' empty_ask_state = Inl ValueError"
    "run empty_ask_state initial_data = Inl ValueError"
    by simp_all
  have b: "state_order_depths (example_state 0 0 (- 5)) ''PEARLS'' = Some (example_book (- 5))"
    by (simp add: example_state_def)
  have i: "Status_init ''PEARLS'' (example_state 0 0 (- 5)) = Inr (example_status 0 0 (- 5))"
    by (simp add: example_status_init)
  from missing_book_side_fails [OF b, of initial_data] i
  have 2: "sell_orders (example_book (- 5)) \<noteq> [] \<and> buy_orders (example_book (- 5)) \<noteq> []"
    by blast
  from a 1 b i 2 show ?thesis by blast
qed

section \<open>Absent position\<close>

lemma state_update_fields:
  "product (s\<lparr>state := x\<rparr>) = product s"
  "order_depth (s\<lparr>state := x\<rparr>) = order_depth s"
  "timestamp (s\<lparr>state := x\<rparr>) = timestamp s"
  "position (s\<lparr>state := x\<rparr>) = position s"
  "limit (s\<lparr>state := x\<rparr>) = limit s"
  "best_ask (s\<lparr>state := x\<rparr>) = best_ask s"
  "best_bid (s\<lparr>state := x\<rparr>) = best_bid s"
  "mid_price (s\<lparr>state := x\<rparr>) = mid_price s"
  "eff_spread (s\<lparr>state := x\<rparr>) = eff_spread s"
  "mid_vwap (s\<lparr>state := x\<rparr>) = mid_vwap s"
  by simp_all

lemma state_irrelevant:
  "position (s\<lparr>state := x\<rparr>) = position s"
  "stop_loss (s\<lparr>state := x\<rparr>) = stop_loss s"
  "quote_quantities (s\<lparr>state := x\<rparr>) sma = quote_quantities s sma"
  "market_making (s\<lparr>state := x\<rparr>) tr sma = market_making s tr sma"
  "update_price (s\<lparr>state := x\<rparr>) data = update_price s data"
  unfolding market_making_def inventory_skew_def quote_quantities_def quantity_shift_def
    stop_loss_def mm_price_def mm_spread_def price_shift_def update_price_def
    state_update_fields
  by (rule refl)+

lemma no_position_with_position:
  "with_position ''PEARLS'' 0 (no_position_state ts q) = example_state ts 0 q"
  by (simp add: with_position_def no_position_state_def example_state_def)

text \<open>
  Claim C10. When the product has no entry in the position mapping, the snapshot's
  position is 0, and the snapshot is the one built from the same state with an
  explicit position of 0, up to the stored state itself. The stop-loss test, the
  quoted sizes and the order set are the same for both, and so is a whole tick of
  \<^const>\<open>run\<close>.
\<close>

theorem absent_position_is_zero:
  assumes "state_position st prd = None"
  shows "(\<forall>s. Status_init prd st = Inr s \<longrightarrow> position s = 0) \<and>
         Status_init prd (with_position prd 0 st) =
           (case Status_init prd st of Inl e \<Rightarrow> Inl e
            | Inr s \<Rightarrow> Inr (s\<lparr>state := with_position prd 0 st\<rparr>)) \<and>
         (\<forall>s s0. Status_init prd st = Inr s \<and> Status_init prd (with_position prd 0 st) = Inr s0 \<longrightarrow>
            position s0 = position s \<and> stop_loss s0 = stop_loss s \<and>
            quote_quantities s0 sma = quote_quantities s sma \<and>
            market_making s0 tr sma = market_making s tr sma) \<and>
         (prd = ''PEARLS'' \<longrightarrow> run (with_position prd 0 st) data = run st data)"
proof -
  have z: "position s = 0" if "Status_init prd st = Inr s" for s
    using Status_init_Inr(4) [OF that] assms by (simp add: report_position_def)
  have w: "Status_init prd (with_position prd 0 st) =
           (case Status_init prd st of Inl e \<Rightarrow> Inl e
            | Inr s \<Rightarrow> Inr (s\<lparr>state := with_position prd 0 st\<rparr>))"
  proof (cases "Status_init prd st")
    case (Inl e)
    then show ?thesis by (simp add: Status_init_with_position)
  next
    case (Inr s)
    from z [OF Inr] have "s\<lparr>state := with_position prd 0 st, position := 0\<rparr> =
        s\<lparr>state := with_position prd 0 st\<rparr>" by simp
    with Inr show ?thesis by (simp add: Status_init_with_position)
  qed
  have d: "position s0 = position s \<and> stop_loss s0 = stop_loss s \<and>
            quote_quantities s0 sma = quote_quantities s sma \<and>
            market_making s0 tr sma = market_making s tr sma"
    if "Status_init prd st = Inr s" "Status_init prd (with_position prd 0 st) = Inr s0" for s s0
  proof -
    from that w have "s0 = s\<lparr>state := with_position prd 0 st\<rparr>" by simp
    then show ?thesis by (simp only: state_irrelevant)
  qed
  have r: "run (with_position prd 0 st) data = run st data" if "prd = ''PEARLS''"
  proof (cases "Status_init ''PEARLS'' st")
    case (Inl e)
    with w that show ?thesis by (simp add: run_def)
  next
    case (Inr s)
    let ?s0 = "s\<lparr>state := with_position ''PEARLS'' 0 st\<rparr>"
    from Inr w that have i0: "Status_init ''PEARLS'' (with_position ''PEARLS'' 0 st) = Inr ?s0"
      by simp
    note f = Status_init_Inr(1,2) [OF Inr]
    note f0 = Status_init_Inr(1,2) [OF i0]
    have "run (with_position ''PEARLS'' 0 st) data = run st data"
      unfolding run_def i0 Inr sum.case f f0 state_irrelevant by (rule refl)
    with that show ?thesis by simp
  qed
  from z w d r show ?thesis by blast
qed

theorem absent_position_is_zero_witness:
  "state_position (no_position_state 0 (- 5)) ''PEARLS'' = None \<and>
   (\<exists>s. Status_init ''PEARLS'' (no_position_state 0 (- 5)) = Inr s \<and> position s = 0 \<and>
        market_making s 0.2 0 = market_making (example_status 0 0 (- 5)) 0.2 0) \<and>
   run (no_position_state 0 (- 5)) initial_data = run (example_state 0 0 (- 5)) initial_data"
proof -
  have n: "state_position (no_position_state 0 (- 5)) ''PEARLS'' = None"
    by (simp add: no_position_state_def)
  note t = absent_position_is_zero [OF n, of 0 "0.2" initial_data, unfolded no_position_with_position]
  have i: "Status_init ''PEARLS'' (example_state 0 0 (- 5)) = Inr (example_status 0 0 (- 5))"
    by (simp add: example_status_init)
  from t i obtain s where s: "Status_init ''PEARLS'' (no_position_state 0 (- 5)) = Inr s"
    by (cases "Status_init ''PEARLS'' (no_position_state 0 (- 5))") auto
  from t s have p: "position s = 0" by blast
  from t s i have m: "market_making (example_status 0 0 (- 5)) 0.2 0 = market_making s 0.2 0"
    by blast
  from t have r: "run (example_state 0 0 (- 5)) initial_data = run (no_position_state 0 (- 5)) initial_data"
    by blast
  from n s p m r show ?thesis by auto
qed

end
